theory Spec2Isabelle
  imports Main "HOL-Library.Sublist" "HOL-Library.FSet" "HOL-Library.Char_ord"
    "HOL-Library.List_Lexorder"
begin

section \<open>Strings\<close>

text \<open>
  A Python \<open>str\<close> is a sequence of code points. The model covers the code points below 256
  (ASCII and the Latin-1 supplement): a \<^typ>\<open>char\<close> is the code point \<open>of_char c\<close>. The string
  methods the program calls are written out on that range.
\<close>

definition code_point :: "char \<Rightarrow> nat" where
  "code_point c = of_char c"

definition is_ascii_alpha :: "char \<Rightarrow> bool" where
  \<comment> \<open>\<open>c.isascii() and c.isalpha()\<close>\<close>
  "is_ascii_alpha c =
     (let n = code_point c in (65 \<le> n \<and> n \<le> 90) \<or> (97 \<le> n \<and> n \<le> 122))"

definition is_ascii_digit :: "char \<Rightarrow> bool" where
  "is_ascii_digit c = (let n = code_point c in 48 \<le> n \<and> n \<le> 57)"

definition lower_char :: "char \<Rightarrow> char" where
  \<comment> \<open>\<open>str.lower\<close> on one code point below 256: A-Z, and the Latin-1 capitals
      U+00C0..U+00DE without the multiplication sign U+00D7, move up by 32.\<close>
  "lower_char c =
     (let n = code_point c in
      if (65 \<le> n \<and> n \<le> 90) \<or> (192 \<le> n \<and> n \<le> 222 \<and> n \<noteq> 215)
      then char_of (n + 32) else c)"

definition lower :: "string \<Rightarrow> string" where
  "lower s = map lower_char s"

definition startswith :: "string \<Rightarrow> string \<Rightarrow> bool" where
  \<comment> \<open>\<open>s.startswith(p)\<close>\<close>
  "startswith s p = prefix p s"

definition contains :: "string \<Rightarrow> string \<Rightarrow> bool" where
  \<comment> \<open>\<open>sub in s\<close> on strings: \<open>sub\<close> occurs in \<open>s\<close> as a contiguous run\<close>
  "contains s sub = sublist sub s"

fun str_nat :: "nat \<Rightarrow> string" where
  "str_nat n =
     (if n < 10 then [char_of (48 + n)]
      else str_nat (n div 10) @ [char_of (48 + n mod 10)])"

definition str_int :: "int \<Rightarrow> string" where
  \<comment> \<open>\<open>str(i)\<close>, the decimal rendering an f-string uses\<close>
  "str_int i = (if i < 0 then CHR ''-'' # str_nat (nat (- i)) else str_nat (nat i))"

definition nat_of_str :: "string \<Rightarrow> nat" where
  \<comment> \<open>the number a string of decimal digits denotes\<close>
  "nat_of_str s = foldl (\<lambda>a c. 10 * a + (code_point c - 48)) 0 s"

section \<open>Exceptions\<close>

text \<open>
  An exception is its class and the text \<open>str(e)\<close>. The program has two unrelated classes
  called \<open>URLValidationError\<close>, two called \<open>URLReachabilityError\<close> and two called
  \<open>BrowserError\<close>: those of \<open>exceptions.py\<close> and those that \<open>validators.py\<close> and
  \<open>browser_handler.py\<close> define for themselves. \<open>OtherException\<close> stands for any further
  subclass of \<open>Exception\<close>; the exceptions that are not (\<open>KeyboardInterrupt\<close>,
  \<open>SystemExit\<close>) are signals from outside and have no place in the model. A class
  of \<open>requests.exceptions\<close> is represented by the first handler class of the program it is an
  instance of.
\<close>

datatype exn_class =
    Exception
  | ValueError
  | OtherException
  | Requests_RequestException
  | Requests_Timeout
  | Requests_TooManyRedirects
  | Requests_SSLError
  | Webbrowser_Error
  | Validators_URLValidationError
  | Validators_URLReachabilityError
  | DomainBlockerError
  | BrowserHandler_BrowserError
  | ArchiveCliError
  | URLError
  | URLValidationError
  | URLReachabilityError
  | ArchiveServiceError
  | ArchiveNotFoundError
  | ArchiveCreationError
  | ArchiveServiceUnavailableError
  | BrowserError
  | ConfigurationError

datatype exn = Exn (exn_cls: exn_class) (message: string)

fun superclasses :: "exn_class \<Rightarrow> exn_class list" where
  \<comment> \<open>the proper superclasses, up to \<open>Exception\<close>\<close>
  "superclasses Exception = []"
| "superclasses Requests_Timeout = [Requests_RequestException, Exception]"
| "superclasses Requests_TooManyRedirects = [Requests_RequestException, Exception]"
| "superclasses Requests_SSLError = [Requests_RequestException, Exception]"
| "superclasses URLError = [ArchiveCliError, Exception]"
| "superclasses URLValidationError = [URLError, ArchiveCliError, Exception]"
| "superclasses URLReachabilityError = [URLError, ArchiveCliError, Exception]"
| "superclasses ArchiveServiceError = [ArchiveCliError, Exception]"
| "superclasses ArchiveNotFoundError = [ArchiveServiceError, ArchiveCliError, Exception]"
| "superclasses ArchiveCreationError = [ArchiveServiceError, ArchiveCliError, Exception]"
| "superclasses ArchiveServiceUnavailableError =
     [ArchiveServiceError, ArchiveCliError, Exception]"
| "superclasses BrowserError = [ArchiveCliError, Exception]"
| "superclasses ConfigurationError = [ArchiveCliError, Exception]"
| "superclasses _ = [Exception]"

definition isinstance :: "exn \<Rightarrow> exn_class \<Rightarrow> bool" where
  \<comment> \<open>what \<open>except cls\<close> tests\<close>
  "isinstance e cls = (cls \<in> set (exn_cls e # superclasses (exn_cls e)))"

section \<open>\<open>urllib.parse\<close>\<close>

text \<open>
  \<open>urlparse\<close> as CPython 3.11 defines it, for the two components the program reads, the
  scheme and the network location. The validation of a bracketed host (an IPv6 literal,
  done by the \<open>ipaddress\<close> module) is a parameter: it answers \<open>None\<close>, or the text of the
  \<open>ValueError\<close> it raises. The check of the network location under NFKC normalisation
  raises on no string of code points below 256, and is left out.
\<close>

datatype parse_result = ParseResult (scheme: string) (netloc: string)

definition scheme_chars :: string where
  "scheme_chars =
     ''abcdefghijklmnopqrstuvwxyzABCDEFGHIJKLMNOPQRSTUVWXYZ0123456789+-.''"

definition split_scheme :: "string \<Rightarrow> string \<times> string" where
  \<comment> \<open>\<open>i = url.find(':')\<close>; the scheme is \<open>url[:i]\<close> when \<open>i > 0\<close>, the first character is
      an ASCII letter and every character before the colon is a scheme character\<close>
  "split_scheme url =
     (let pre = takeWhile (\<lambda>c. c \<noteq> CHR '':'') url in
      if length pre < length url \<and> 0 < length pre \<and> is_ascii_alpha (hd url)
         \<and> list_all (\<lambda>c. c \<in> set scheme_chars) pre
      then (lower pre, drop (length pre + 1) url)
      else ('''', url))"

definition splitnetloc :: "string \<Rightarrow> string" where
  \<comment> \<open>the first component of \<open>_splitnetloc(url, 2)\<close>: from index 2 up to the first of
      \<open>/\<close>, \<open>?\<close>, \<open>#\<close>\<close>
  "splitnetloc url = takeWhile (\<lambda>c. c \<notin> set ''/?#'') (drop 2 url)"

definition bracketed_host :: "string \<Rightarrow> string" where
  \<comment> \<open>\<open>netloc.partition('[')[2].partition(']')[0]\<close>\<close>
  "bracketed_host nl =
     takeWhile (\<lambda>c. c \<noteq> CHR '']'') (drop 1 (dropWhile (\<lambda>c. c \<noteq> CHR ''['') nl))"

definition urlparse :: "(string \<Rightarrow> string option) \<Rightarrow> string \<Rightarrow> exn + parse_result" where
  "urlparse check_bracketed_host url0 =
     (let url1 = dropWhile (\<lambda>c. code_point c \<le> 32) url0;
          url2 = filter (\<lambda>c. c \<notin> set [CHR 0x09, CHR 0x0D, CHR 0x0A]) url1;
          (sch, rest) = split_scheme url2
      in if take 2 rest = ''//'' then
           (let nl = splitnetloc rest in
            if (CHR ''['' \<in> set nl \<and> CHR '']'' \<notin> set nl)
               \<or> (CHR '']'' \<in> set nl \<and> CHR ''['' \<notin> set nl)
            then Inl (Exn ValueError ''Invalid IPv6 URL'')
            else if CHR ''['' \<in> set nl \<and> CHR '']'' \<in> set nl then
              (case check_bracketed_host (bracketed_host nl) of
                 Some msg \<Rightarrow> Inl (Exn ValueError msg)
               | None \<Rightarrow> Inr (ParseResult sch nl))
            else Inr (ParseResult sch nl))
         else Inr (ParseResult sch ''''))"

definition always_safe :: "char \<Rightarrow> bool" where
  \<comment> \<open>the characters \<open>quote\<close> never encodes: letters, digits and \<open>_.-~\<close>\<close>
  "always_safe c = (is_ascii_alpha c \<or> is_ascii_digit c \<or> c \<in> set ''_.-~'')"

definition utf8_encode :: "char \<Rightarrow> nat list" where
  \<comment> \<open>the UTF-8 bytes of a code point below 256\<close>
  "utf8_encode c =
     (let n = code_point c in if n < 128 then [n] else [192 + n div 64, 128 + n mod 64])"

definition percent_byte :: "nat \<Rightarrow> string" where
  \<comment> \<open>\<open>'%{:02X}'.format(b)\<close>\<close>
  "percent_byte b =
     [CHR ''%'', ''0123456789ABCDEF'' ! (b div 16), ''0123456789ABCDEF'' ! (b mod 16)]"

definition quote :: "string \<Rightarrow> string" where
  \<comment> \<open>\<open>quote(s, safe='')\<close>\<close>
  "quote s =
     concat (map (\<lambda>c. if always_safe c then [c] else concat (map percent_byte (utf8_encode c))) s)"

section \<open>The world outside the program\<close>

text \<open>
  The network, the browser and the file system are parameters. An HTTP call answers with a
  response (its status code and its final location after redirects) or raises; the
  \<open>webbrowser\<close> module says whether it opened the page, or raises. Every call the program
  makes is recorded as an event, in order.
\<close>

datatype http_outcome = Response (status_code: int) (resp_url: string) | Raises exn

datatype browser_outcome = Opened bool | BrowserRaises exn

record world =
  check_bracketed_host :: "string \<Rightarrow> string option"
  requests_head :: "string \<Rightarrow> int \<Rightarrow> http_outcome"
  requests_get :: "string \<Rightarrow> int \<Rightarrow> http_outcome"
  webbrowser_open :: "string \<Rightarrow> browser_outcome"

datatype event = HEAD string | GET string | BROWSER string

text \<open>
  A configuration file is unreadable (\<open>open\<close> raises \<open>IOError\<close>, with its text), is not
  JSON (\<open>json.load\<close> raises \<open>JSONDecodeError\<close>, with its text), or is a JSON object, of
  which the model keeps the list of strings under the key \<open>blocked_domains\<close>, if the key is
  there. Opening a path for writing succeeds or raises \<open>IOError\<close>.
\<close>

datatype config_file =
    Unreadable string
  | NotJSON string
  | Document "string list option"

record filesystem =
  contents :: "string \<Rightarrow> config_file"
  write_error :: "string \<Rightarrow> string option"

section \<open>\<open>validators.py\<close>\<close>

definition is_valid_scheme :: "(string \<Rightarrow> string option) \<Rightarrow> string \<Rightarrow> bool" where
  "is_valid_scheme chk url =
     (case urlparse chk url of
        Inr parsed \<Rightarrow> scheme parsed = ''http'' \<or> scheme parsed = ''https''
      | Inl e \<Rightarrow> False)"

definition is_well_formed_url :: "(string \<Rightarrow> string option) \<Rightarrow> string \<Rightarrow> bool" where
  "is_well_formed_url chk url =
     (case urlparse chk url of
        Inr result \<Rightarrow> scheme result \<noteq> '''' \<and> netloc result \<noteq> ''''
      | Inl e \<Rightarrow> False)"

definition check_url_reachability ::
  "world \<Rightarrow> string \<Rightarrow> int \<Rightarrow> (exn + string \<times> bool) \<times> event list" where
  "check_url_reachability w url timeout =
     ((case requests_head w url timeout of
         Response sc final_url \<Rightarrow>
           if sc = 200 then Inr (final_url, True)
           else if sc = 403 then Inl (Exn Validators_URLReachabilityError ''Access forbidden'')
           else if sc = 404 then Inl (Exn Validators_URLReachabilityError ''Page not found'')
           else if sc \<ge> 500
             then Inl (Exn Validators_URLReachabilityError ''Server error occurred'')
           else Inl (Exn Validators_URLReachabilityError
                       (''Unexpected status code: '' @ str_int sc))
       | Raises e \<Rightarrow>
           if isinstance e Requests_Timeout
             then Inl (Exn Validators_URLReachabilityError ''Request timed out'')
           else if isinstance e Requests_TooManyRedirects
             then Inl (Exn Validators_URLReachabilityError ''Too many redirects'')
           else if isinstance e Requests_SSLError
             then Inl (Exn Validators_URLReachabilityError ''SSL verification failed'')
           else if isinstance e Requests_RequestException
             then Inl (Exn Validators_URLReachabilityError (''Request failed: '' @ message e))
           else Inl e),
      [HEAD url])"

definition validate_url :: "(string \<Rightarrow> string option) \<Rightarrow> string \<Rightarrow> exn + string" where
  "validate_url chk url =
     (if url = '''' then Inl (Exn Validators_URLValidationError ''URL cannot be empty'')
      else if \<not> is_valid_scheme chk url
        then Inl (Exn Validators_URLValidationError ''URL must start with http:// or https://'')
      else if \<not> is_well_formed_url chk url
        then Inl (Exn Validators_URLValidationError ''URL is not well-formed'')
      else Inr url)"

section \<open>\<open>domain_blocker.py\<close>\<close>

record domain_blocker =
  blocked_domains :: "string fset"

definition DEFAULT_BLOCKED_DOMAINS :: "string fset" where
  "DEFAULT_BLOCKED_DOMAINS =
     {|''facebook.com'', ''twitter.com'', ''instagram.com'', ''linkedin.com'',
       ''accounts.google.com'', ''login.yahoo.com''|}"

definition load_config ::
  "domain_blocker \<Rightarrow> string \<Rightarrow> filesystem \<Rightarrow> (exn + unit) \<times> domain_blocker" where
  "load_config self config_path fs =
     (case contents fs config_path of
        Unreadable msg \<Rightarrow>
          (Inl (Exn DomainBlockerError (''Failed to load configuration: '' @ msg)), self)
      | NotJSON msg \<Rightarrow>
          (Inl (Exn DomainBlockerError (''Failed to load configuration: '' @ msg)), self)
      | Document d \<Rightarrow>
          (let custom_domains = fset_of_list (case d of None \<Rightarrow> [] | Some xs \<Rightarrow> xs)
           in (Inr (), self\<lparr>blocked_domains := blocked_domains self |\<union>| custom_domains\<rparr>)))"

definition DomainBlocker :: "string option \<Rightarrow> filesystem \<Rightarrow> exn + domain_blocker" where
  \<comment> \<open>the constructor; \<open>if config_path\<close> is false on \<open>None\<close> and on the empty string\<close>
  "DomainBlocker config_path fs =
     (let self = \<lparr>blocked_domains = DEFAULT_BLOCKED_DOMAINS\<rparr> in
      case config_path of
        None \<Rightarrow> Inr self
      | Some path \<Rightarrow>
          if path = [] then Inr self
          else (case load_config self path fs of
                  (Inl e, _) \<Rightarrow> Inl e
                | (Inr _, self') \<Rightarrow> Inr self'))"

definition is_domain_blocked ::
  "(string \<Rightarrow> string option) \<Rightarrow> domain_blocker \<Rightarrow> string \<Rightarrow> exn + bool" where
  "is_domain_blocked chk self url =
     (case urlparse chk url of
        Inl e \<Rightarrow> Inl (Exn DomainBlockerError (''Failed to parse URL: '' @ message e))
      | Inr parsed \<Rightarrow>
          (let domain = lower (netloc parsed);
               domain = (if startswith domain ''www.'' then drop 4 domain else domain)
           in Inr (fBex (blocked_domains self) (\<lambda>blocked. contains domain blocked))))"

definition add_blocked_domain :: "domain_blocker \<Rightarrow> string \<Rightarrow> domain_blocker" where
  "add_blocked_domain self domain =
     self\<lparr>blocked_domains := finsert (lower domain) (blocked_domains self)\<rparr>"

definition remove_blocked_domain ::
  "domain_blocker \<Rightarrow> string \<Rightarrow> (exn + unit) \<times> domain_blocker" where
  \<comment> \<open>\<open>set.remove\<close> raises \<open>KeyError\<close> on an absent element, before it changes the set\<close>
  "remove_blocked_domain self domain =
     (if lower domain |\<in>| blocked_domains self
      then (Inr (), self\<lparr>blocked_domains := blocked_domains self |-| {|lower domain|}\<rparr>)
      else (Inl (Exn DomainBlockerError
                   (''Domain '' @ domain @ '' is not in the blocked list'')), self))"

definition get_blocked_domains :: "domain_blocker \<Rightarrow> string fset" where
  "get_blocked_domains self = blocked_domains self"

definition save_config ::
  "domain_blocker \<Rightarrow> string \<Rightarrow> filesystem \<Rightarrow> (exn + unit) \<times> filesystem" where
  \<comment> \<open>\<open>list(self.blocked_domains)\<close> enumerates the set in an order Python leaves open; the
      model takes the sorted one\<close>
  "save_config self config_path fs =
     (case write_error fs config_path of
        Some msg \<Rightarrow>
          (Inl (Exn DomainBlockerError (''Failed to save configuration: '' @ msg)), fs)
      | None \<Rightarrow>
          (let config = Document (Some (sorted_list_of_fset (blocked_domains self)))
           in (Inr (), fs\<lparr>contents := (contents fs)(config_path := config)\<rparr>)))"

section \<open>The validation pipeline\<close>

definition validate_url_with_reachability ::
  "world \<Rightarrow> string \<Rightarrow> int \<Rightarrow> domain_blocker option \<Rightarrow> (exn + string) \<times> event list" where
  "validate_url_with_reachability w url timeout blocker =
     (if \<not> is_well_formed_url (check_bracketed_host w) url
        then (Inl (Exn Validators_URLValidationError ''Invalid URL format''), [])
      else if \<not> is_valid_scheme (check_bracketed_host w) url
        then (Inl (Exn Validators_URLValidationError
                     ''URL must start with http:// or https://''), [])
      else
        (case (case blocker of
                 None \<Rightarrow> Inr False
               | Some b \<Rightarrow> is_domain_blocked (check_bracketed_host w) b url) of
           Inl e \<Rightarrow> (Inl e, [])
         | Inr True \<Rightarrow> (Inl (Exn Validators_URLValidationError ''Domain is blocked''), [])
         | Inr False \<Rightarrow>
             (case check_url_reachability w url timeout of
                (Inl e, evs) \<Rightarrow> (Inl e, evs)
              | (Inr (final_url, reachable), evs) \<Rightarrow> (Inr final_url, evs))))"

section \<open>\<open>archive_service.py\<close>\<close>

definition BASE_URL :: string where
  "BASE_URL = ''https://archive.is/''"

definition SUBMIT_ENDPOINT :: string where
  "SUBMIT_ENDPOINT = ''submit/''"

definition construct_search_url :: "string \<Rightarrow> string" where
  \<comment> \<open>\<open>urljoin\<close> of the base and a reference without scheme and network location, whose
      path is relative and whose query is not empty: the reference is appended to the
      base, which ends with its path \<open>/\<close>\<close>
  "construct_search_url url =
     (let encoded_url = quote url
      in BASE_URL @ SUBMIT_ENDPOINT @ ''?url='' @ encoded_url)"

definition get_latest_archive ::
  "world \<Rightarrow> string \<Rightarrow> int \<Rightarrow> (exn + string) \<times> event list" where
  "get_latest_archive w url timeout =
     (let search_url = construct_search_url url in
      ((case requests_get w search_url timeout of
          Response sc rurl \<Rightarrow>
            if sc = 200 then
              (if contains rurl ''archive.is/'' \<and> rurl \<noteq> search_url then Inr rurl
               else Inl (Exn ArchiveNotFoundError ''No archived version found''))
            else if sc = 404 then Inl (Exn ArchiveNotFoundError ''No archived version found'')
            else if sc \<ge> 500 then
              Inl (Exn ArchiveServiceUnavailableError
                ''Archive.is service is temporarily unavailable. Please try again later.'')
            else
              Inl (Exn ArchiveServiceError
                (''Received unexpected response from archive.is (status code: '' @ str_int sc
                 @ ''). Please try again or report this issue if it persists.''))
        | Raises e \<Rightarrow>
            if isinstance e Requests_RequestException
              then Inl (Exn ArchiveServiceError
                          (''Failed to communicate with archive.is: '' @ message e))
            else Inl e),
       [GET search_url]))"

definition get_or_create_archive ::
  "world \<Rightarrow> string \<Rightarrow> int \<Rightarrow> (exn + string) \<times> event list" where
  "get_or_create_archive w url timeout =
     (case get_latest_archive w url timeout of
        (Inl e, evs) \<Rightarrow>
          if isinstance e ArchiveNotFoundError
            then (Inl (Exn ArchiveCreationError
                    (''Archive creation is not yet implemented. ''
                     @ ''Please try again later when this feature becomes available.'')), evs)
          else (Inl e, evs)
      | (Inr archive, evs) \<Rightarrow> (Inr archive, evs))"

section \<open>\<open>browser_handler.py\<close>\<close>

definition browser_validate_url :: "(string \<Rightarrow> string option) \<Rightarrow> string \<Rightarrow> bool" where
  \<comment> \<open>\<open>validate_url\<close> of \<open>browser_handler.py\<close>\<close>
  "browser_validate_url chk url =
     (case urlparse chk url of
        Inr result \<Rightarrow> scheme result \<noteq> [] \<and> netloc result \<noteq> []
      | Inl e \<Rightarrow> False)"

definition open_url_in_browser ::
  "world \<Rightarrow> string \<Rightarrow> (exn + bool \<times> string) \<times> event list" where
  "open_url_in_browser w url =
     (if \<not> browser_validate_url (check_bracketed_host w) url
        then (Inr (False, ''Invalid URL format''), [])
      else
        ((case webbrowser_open w url of
            Opened ok \<Rightarrow>
              if ok then Inr (True, ''URL opened successfully'')
              else Inr (False, ''Failed to open URL'')
          | BrowserRaises e \<Rightarrow>
              if isinstance e Webbrowser_Error
                then Inl (Exn BrowserHandler_BrowserError (''Browser error: '' @ message e))
              else Inl (Exn BrowserHandler_BrowserError
                          (''Unexpected error opening URL: '' @ message e))),
         [BROWSER url]))"

section \<open>\<open>archive.py\<close>\<close>

definition archive_url_try ::
  "world \<Rightarrow> string \<Rightarrow> (exn + bool \<times> string) \<times> event list" where
  \<comment> \<open>the body of the \<open>try\<close> statement of \<open>archive_url\<close>\<close>
  "archive_url_try w url =
     (case validate_url_with_reachability w url 10 None of
        (Inl e, evs1) \<Rightarrow> (Inl e, evs1)
      | (Inr validated, evs1) \<Rightarrow>
          (case get_latest_archive w url 10 of
             (Inl e, evs2) \<Rightarrow> (Inl e, evs1 @ evs2)
           | (Inr archived_url, evs2) \<Rightarrow>
               (case open_url_in_browser w archived_url of
                  (Inl e, evs3) \<Rightarrow> (Inl e, evs1 @ evs2 @ evs3)
                | (Inr (success, msg), evs3) \<Rightarrow>
                    (if success
                       then Inr (True, ''Successfully opened archived version: '' @ archived_url)
                     else Inl (Exn BrowserError (''Failed to open browser: '' @ msg)),
                     evs1 @ evs2 @ evs3))))"

definition archive_url_except :: "exn \<Rightarrow> exn + bool \<times> string" where
  \<comment> \<open>the \<open>except\<close> clauses of \<open>archive_url\<close>, in order; the classes are those that
      \<open>archive.py\<close> imports from \<open>exceptions.py\<close>. An exception no clause matches leaves the
      function.\<close>
  "archive_url_except e =
     (if isinstance e URLValidationError \<or> isinstance e URLReachabilityError
        then Inr (False, message e)
      else if isinstance e ArchiveServiceError then Inr (False, message e)
      else if isinstance e BrowserError then Inr (False, message e)
      else if isinstance e Exception
        then Inr (False, ''An unexpected error occurred: '' @ message e)
      else Inl e)"

definition archive_url ::
  "world \<Rightarrow> string \<Rightarrow> bool \<Rightarrow> (exn + bool \<times> string) \<times> event list" where
  "archive_url w url quiet =
     (case archive_url_try w url of
        (Inl e, evs) \<Rightarrow> (archive_url_except e, evs)
      | (Inr r, evs) \<Rightarrow> (Inr r, evs))"

section \<open>\<open>cli.py\<close>\<close>

definition main_except :: "exn \<Rightarrow> exn + int" where
  \<comment> \<open>the \<open>except\<close> clauses of \<open>main\<close>, in order, on the classes of \<open>exceptions.py\<close>\<close>
  "main_except e =
     (if isinstance e URLValidationError then Inr 2
      else if isinstance e URLReachabilityError then Inr 3
      else if isinstance e ArchiveNotFoundError then Inr 4
      else if isinstance e ArchiveServiceUnavailableError then Inr 5
      else if isinstance e ArchiveCreationError then Inr 6
      else if isinstance e ArchiveServiceError then Inr 7
      else if isinstance e BrowserError then Inr 8
      else if isinstance e ConfigurationError then Inr 9
      else if isinstance e Exception then Inr 1
      else Inl e)"

definition main :: "world \<Rightarrow> string \<Rightarrow> bool \<Rightarrow> (exn + int) \<times> event list" where
  \<comment> \<open>\<open>main\<close> after \<open>argparse\<close> has read the URL and the quiet flag\<close>
  "main w url quiet =
     (case validate_url_with_reachability w url 10 None of
        (Inl e, evs1) \<Rightarrow> (main_except e, evs1)
      | (Inr validated_url, evs1) \<Rightarrow>
          (case get_latest_archive w validated_url 10 of
             (Inl e, evs2) \<Rightarrow> (main_except e, evs1 @ evs2)
           | (Inr archive, evs2) \<Rightarrow>
               (case open_url_in_browser w archive of
                  (Inl e, evs3) \<Rightarrow> (main_except e, evs1 @ evs2 @ evs3)
                | (Inr (success, msg), evs3) \<Rightarrow>
                    (if \<not> success then Inr 1 else Inr 0, evs1 @ evs2 @ evs3))))"

section \<open>Properties as the specification words them\<close>

definition on_archive_host :: "(string \<Rightarrow> string option) \<Rightarrow> string \<Rightarrow> bool" where
  \<comment> \<open>Following the specification (4.4): a location lies on the archive service's host
      when its network location is that of the service's base address.\<close>
  "on_archive_host chk location =
     (case (urlparse chk location, urlparse chk BASE_URL) of
        (Inr a, Inr b) \<Rightarrow> netloc a = netloc b
      | _ \<Rightarrow> False)"

definition isBlocked_spec ::
  "(string \<Rightarrow> string option) \<Rightarrow> domain_blocker \<Rightarrow> string \<Rightarrow> exn + bool" where
  \<comment> \<open>Following the specification (4.2): extract the host, strip a leading literal
      \<open>www.\<close>, lowercase, and look for a blocklist entry that is a substring.\<close>
  "isBlocked_spec chk self url =
     (case urlparse chk url of
        Inl e \<Rightarrow> Inl (Exn DomainBlockerError (''Failed to parse URL: '' @ message e))
      | Inr parsed \<Rightarrow>
          (let host = netloc parsed;
               stripped = (if startswith host ''www.'' then drop 4 host else host);
               lowered = lower stripped
           in Inr (fBex (blocked_domains self) (\<lambda>blocked. contains lowered blocked))))"

section \<open>Concrete inputs\<close>

definition no_bracket_error :: "string \<Rightarrow> string option" where
  "no_bracket_error host = None"

definition const_world :: "http_outcome \<Rightarrow> http_outcome \<Rightarrow> browser_outcome \<Rightarrow> world" where
  \<comment> \<open>a world that gives the same answer to every probe, every lookup and every launch\<close>
  "const_world probe lookup launch =
     \<lparr>check_bracketed_host = no_bracket_error,
      requests_head = (\<lambda>url timeout. probe),
      requests_get = (\<lambda>url timeout. lookup),
      webbrowser_open = (\<lambda>url. launch)\<rparr>"

definition default_blocker :: domain_blocker where
  \<comment> \<open>the state after \<open>DomainBlocker()\<close>\<close>
  "default_blocker = \<lparr>blocked_domains = DEFAULT_BLOCKED_DOMAINS\<rparr>"

definition empty_filesystem :: filesystem where
  \<comment> \<open>no file can be read, every path can be written\<close>
  "empty_filesystem =
     \<lparr>contents = (\<lambda>path. Unreadable ''No such file or directory''),
      write_error = (\<lambda>path. None)\<rparr>"

section \<open>Auxiliary facts\<close>

lemma isinstance_Exception: "isinstance e Exception"
  by (cases e; cases "exn_cls e") (simp_all add: isinstance_def)

lemma archive_url_except_returns: "\<exists>msg. archive_url_except e = Inr (False, msg)"
  by (simp add: archive_url_except_def isinstance_Exception)

lemma contains_iff: "contains s sub \<longleftrightarrow> (\<exists>ps ss. s = ps @ sub @ ss)"
  by (simp add: contains_def sublist_def)

lemma nat_of_str_snoc: "nat_of_str (xs @ [c]) = 10 * nat_of_str xs + (code_point c - 48)"
  by (simp add: nat_of_str_def)

lemma code_point_digit: "d < 10 \<Longrightarrow> code_point (char_of (48 + d)) = 48 + d"
  by (simp add: code_point_def)

lemma nat_of_str_str_nat: "nat_of_str (str_nat n) = n"
proof (induction n rule: str_nat.induct)
  case (1 n)
  show ?case
  proof (cases "n < 10")
    case True
    then have "str_nat n = [char_of (48 + n)]"
      by (subst str_nat.simps) simp
    with True show ?thesis
      by (simp add: nat_of_str_def code_point_digit)
  next
    case False
    then have s: "str_nat n = str_nat (n div 10) @ [char_of (48 + n mod 10)]"
      by (subst str_nat.simps) simp
    from False "1.IH" have "nat_of_str (str_nat (n div 10)) = n div 10"
      by simp
    then show ?thesis
      by (simp only: s nat_of_str_snoc) (simp add: code_point_digit)
  qed
qed

lemma str_nat_inj: "str_nat m = str_nat n \<Longrightarrow> m = n"
  by (metis nat_of_str_str_nat)

lemma str_nat_hd: "\<exists>c cs. str_nat n = c # cs \<and> c \<noteq> CHR ''-''"
proof (induction n rule: str_nat.induct)
  case (1 n)
  show ?case
  proof (cases "n < 10")
    case True
    then have s: "str_nat n = [char_of (48 + n)]"
      by (subst str_nat.simps) simp
    have "code_point (char_of (48 + n)) \<noteq> code_point CHR ''-''"
      using True by (simp add: code_point_digit) (simp add: code_point_def)
    then have "char_of (48 + n) \<noteq> CHR ''-''"
      by auto
    with s show ?thesis by simp
  next
    case False
    then have s: "str_nat n = str_nat (n div 10) @ [char_of (48 + n mod 10)]"
      by (subst str_nat.simps) simp
    from False "1.IH" obtain c cs where "str_nat (n div 10) = c # cs" "c \<noteq> CHR ''-''"
      by blast
    with s show ?thesis by simp
  qed
qed

lemma str_int_inj: "str_int i = str_int j \<Longrightarrow> i = j"
proof -
  assume e: "str_int i = str_int j"
  obtain c cs where i: "str_nat (nat i) = c # cs" "c \<noteq> CHR ''-''"
    using str_nat_hd by blast
  obtain d ds where j: "str_nat (nat j) = d # ds" "d \<noteq> CHR ''-''"
    using str_nat_hd by blast
  show "i = j"
  proof (cases "i < 0")
    case True
    show ?thesis
    proof (cases "j < 0")
      case jn: True
      with True e have "str_nat (nat (- i)) = str_nat (nat (- j))"
        by (simp add: str_int_def)
      then have "nat (- i) = nat (- j)" by (rule str_nat_inj)
      with True jn show ?thesis by simp
    next
      case False
      with True e j show ?thesis by (simp add: str_int_def)
    qed
  next
    case False
    show ?thesis
    proof (cases "j < 0")
      case True
      with False e i show ?thesis by (simp add: str_int_def)
    next
      case jp: False
      with False e have "str_nat (nat i) = str_nat (nat j)"
        by (simp add: str_int_def)
      then have "nat i = nat j" by (rule str_nat_inj)
      with False jp show ?thesis by simp
    qed
  qed
qed

lemma DomainBlocker_fresh: "DomainBlocker None fs = Inr default_blocker"
  by (simp add: DomainBlocker_def default_blocker_def)

lemma const_world_sel:
  "check_bracketed_host (const_world p l b) = no_bracket_error"
  "requests_head (const_world p l b) url timeout = p"
  "requests_get (const_world p l b) url timeout = l"
  "webbrowser_open (const_world p l b) url = b"
  by (simp_all add: const_world_def)

lemma get_latest_archive_events:
  "snd (get_latest_archive w url timeout) = [GET (construct_search_url url)]"
  by (simp add: get_latest_archive_def Let_def)

lemma get_or_create_archive_fst:
  "fst (get_or_create_archive w url timeout) =
     (case fst (get_latest_archive w url timeout) of
        Inl e \<Rightarrow>
          if isinstance e ArchiveNotFoundError
            then Inl (Exn ArchiveCreationError
                   (''Archive creation is not yet implemented. '' @
                    ''Please try again later when this feature becomes available.''))
          else Inl e
      | Inr a \<Rightarrow> Inr a)"
  by (simp add: get_or_create_archive_def split: prod.splits sum.splits)

lemma get_or_create_archive_snd:
  "snd (get_or_create_archive w url timeout) = snd (get_latest_archive w url timeout)"
  by (simp add: get_or_create_archive_def split: prod.splits sum.splits)

lemma validate_reachability_result:
  "is_well_formed_url (check_bracketed_host w) url \<Longrightarrow>
   is_valid_scheme (check_bracketed_host w) url \<Longrightarrow>
   blocker = None \<or> (\<exists>b. blocker = Some b
       \<and> is_domain_blocked (check_bracketed_host w) b url = Inr False) \<Longrightarrow>
   fst (validate_url_with_reachability w url timeout blocker) =
     (case fst (check_url_reachability w url timeout) of
        Inl e \<Rightarrow> Inl e | Inr (final_url, reachable) \<Rightarrow> Inr final_url)"
  by (auto simp add: validate_url_with_reachability_def split: prod.splits sum.splits)

section \<open>The archive lookup\<close>

text \<open>
  Claim C1 does not hold of the program. On a response with status 200, \<open>get_latest_archive\<close>
  is meant to return the final location when the request was redirected to a page of the
  archive, and it does raise \<open>ArchiveNotFoundError\<close> when the final location is the search
  address. But it recognises a page of the archive by the text \<open>archive.is/\<close> anywhere in
  the location, not by the host: a location on another host with that text in its path or
  in its query is returned as the archive.
\<close>

theorem get_latest_archive_off_host:
  "fst (get_latest_archive
          (const_world (Response 200 ''x'') (Response 200 ''https://example.com/archive.is/x'')
             (Opened True))
          ''https://example.com'' 10)
     = Inr ''https://example.com/archive.is/x''
   \<and> ''https://example.com/archive.is/x'' \<noteq> construct_search_url ''https://example.com''
   \<and> \<not> on_archive_host no_bracket_error ''https://example.com/archive.is/x''
   \<and> fst (get_latest_archive
          (const_world (Response 200 ''x'')
             (Response 200 ''https://challenge.example/?next=https://archive.is/abc'')
             (Opened True))
          ''https://example.com'' 10)
     = Inr ''https://challenge.example/?next=https://archive.is/abc''
   \<and> \<not> on_archive_host no_bracket_error
         ''https://challenge.example/?next=https://archive.is/abc''
   \<and> on_archive_host no_bracket_error ''https://archive.is/abc123''
   \<and> fst (get_latest_archive
          (const_world (Response 200 ''x'') (Response 200 ''https://archive.is/abc123'')
             (Opened True))
          ''https://example.com'' 10)
     = Inr ''https://archive.is/abc123''
   \<and> fst (get_latest_archive
          (const_world (Response 200 ''x'')
             (Response 200 (construct_search_url ''https://example.com'')) (Opened True))
          ''https://example.com'' 10)
     = Inl (Exn ArchiveNotFoundError ''No archived version found'')"
  by code_simp

text \<open>
  The remap of \<open>get_or_create_archive\<close>. When the lookup raises \<open>ArchiveNotFoundError\<close>,
  \<open>get_or_create_archive\<close> raises \<open>ArchiveCreationError\<close>; every other exception of the
  lookup leaves it as it is, a found archive is returned as it is, and the only request
  made is the one of the lookup: no creation is attempted. The validation pipeline hands
  on the error of the reachability check as it is.
\<close>

theorem get_or_create_archive_remap:
  "(fst (get_latest_archive w url timeout) = Inl e \<and> isinstance e ArchiveNotFoundError \<longrightarrow>
       fst (get_or_create_archive w url timeout) =
         Inl (Exn ArchiveCreationError
                (''Archive creation is not yet implemented. '' @
                 ''Please try again later when this feature becomes available.'')))
   \<and> (fst (get_latest_archive w url timeout) = Inl e \<and> \<not> isinstance e ArchiveNotFoundError \<longrightarrow>
         fst (get_or_create_archive w url timeout) = Inl e)
   \<and> (fst (get_latest_archive w url timeout) = Inr a \<longrightarrow>
         fst (get_or_create_archive w url timeout) = Inr a)
   \<and> snd (get_or_create_archive w url timeout) = [GET (construct_search_url url)]
   \<and> (is_well_formed_url (check_bracketed_host w) url
         \<and> is_valid_scheme (check_bracketed_host w) url
         \<and> (blocker = None
             \<or> (\<exists>b. blocker = Some b
                   \<and> is_domain_blocked (check_bracketed_host w) b url = Inr False))
         \<and> fst (check_url_reachability w url timeout) = Inl e' \<longrightarrow>
       fst (validate_url_with_reachability w url timeout blocker) = Inl e')"
proof (intro conjI impI)
  assume "fst (get_latest_archive w url timeout) = Inl e \<and> isinstance e ArchiveNotFoundError"
  then show "fst (get_or_create_archive w url timeout) =
         Inl (Exn ArchiveCreationError
                (''Archive creation is not yet implemented. '' @
                 ''Please try again later when this feature becomes available.''))"
    by (simp only: get_or_create_archive_fst sum.case if_True)
next
  assume "fst (get_latest_archive w url timeout) = Inl e \<and> \<not> isinstance e ArchiveNotFoundError"
  then show "fst (get_or_create_archive w url timeout) = Inl e"
    by (simp only: get_or_create_archive_fst sum.case if_False)
next
  assume "fst (get_latest_archive w url timeout) = Inr a"
  then show "fst (get_or_create_archive w url timeout) = Inr a"
    by (simp only: get_or_create_archive_fst sum.case)
next
  show "snd (get_or_create_archive w url timeout) = [GET (construct_search_url url)]"
    by (simp only: get_or_create_archive_snd get_latest_archive_events)
next
  assume h: "is_well_formed_url (check_bracketed_host w) url
         \<and> is_valid_scheme (check_bracketed_host w) url
         \<and> (blocker = None
             \<or> (\<exists>b. blocker = Some b
                   \<and> is_domain_blocked (check_bracketed_host w) b url = Inr False))
         \<and> fst (check_url_reachability w url timeout) = Inl e'"
  then have "fst (validate_url_with_reachability w url timeout blocker) =
     (case fst (check_url_reachability w url timeout) of
        Inl e \<Rightarrow> Inl e | Inr (final_url, reachable) \<Rightarrow> Inr final_url)"
    using validate_reachability_result [of w url blocker timeout] by blast
  with h show "fst (validate_url_with_reachability w url timeout blocker) = Inl e'"
    by (simp only: sum.case)
qed

theorem get_or_create_archive_remap_witness:
  "fst (get_latest_archive (const_world (Response 200 ''x'') (Response 404 ''y'') (Opened True))
          ''https://example.com'' 10)
     = Inl (Exn ArchiveNotFoundError ''No archived version found'')
   \<and> isinstance (Exn ArchiveNotFoundError ''No archived version found'') ArchiveNotFoundError
   \<and> fst (get_or_create_archive
            (const_world (Response 200 ''x'') (Response 404 ''y'') (Opened True))
            ''https://example.com'' 10)
     = Inl (Exn ArchiveCreationError
              (''Archive creation is not yet implemented. '' @
               ''Please try again later when this feature becomes available.''))
   \<and> fst (get_latest_archive (const_world (Response 200 ''x'') (Response 403 ''y'') (Opened True))
          ''https://example.com'' 10)
     = Inl (Exn ArchiveServiceError
              (''Received unexpected response from archive.is (status code: 403). '' @
               ''Please try again or report this issue if it persists.''))
   \<and> fst (get_or_create_archive
            (const_world (Response 200 ''x'') (Response 403 ''y'') (Opened True))
            ''https://example.com'' 10)
     = Inl (Exn ArchiveServiceError
              (''Received unexpected response from archive.is (status code: 403). '' @
               ''Please try again or report this issue if it persists.''))
   \<and> fst (get_or_create_archive
            (const_world (Response 200 ''x'') (Response 200 ''https://archive.is/abc123'')
               (Opened True))
            ''https://example.com'' 10)
     = Inr ''https://archive.is/abc123''
   \<and> fst (validate_url_with_reachability
            (const_world (Response 404 ''https://example.com'') (Response 200 ''y'') (Opened True))
            ''https://example.com'' 10 None)
     = Inl (Exn Validators_URLReachabilityError ''Page not found'')"
proof -
  let ?nf = "const_world (Response 200 ''x'') (Response 404 ''y'') (Opened True)"
  let ?un = "const_world (Response 200 ''x'') (Response 403 ''y'') (Opened True)"
  let ?ok = "const_world (Response 200 ''x'') (Response 200 ''https://archive.is/abc123'')
               (Opened True)"
  let ?pr = "const_world (Response 404 ''https://example.com'') (Response 200 ''y'')
               (Opened True)"
  let ?e403 = "Exn ArchiveServiceError
              (''Received unexpected response from archive.is (status code: 403). '' @
               ''Please try again or report this issue if it persists.'')"
  have nf: "fst (get_latest_archive ?nf ''https://example.com'' 10)
              = Inl (Exn ArchiveNotFoundError ''No archived version found'')"
    by code_simp
  have nfi: "isinstance (Exn ArchiveNotFoundError ''No archived version found'')
               ArchiveNotFoundError"
    by code_simp
  have un: "fst (get_latest_archive ?un ''https://example.com'' 10) = Inl ?e403"
    by code_simp
  have uni: "\<not> isinstance ?e403 ArchiveNotFoundError"
    by code_simp
  have ok: "fst (get_latest_archive ?ok ''https://example.com'' 10) = Inr ''https://archive.is/abc123''"
    by code_simp
  have wf: "is_well_formed_url (check_bracketed_host ?pr) ''https://example.com''"
    by code_simp
  have vs: "is_valid_scheme (check_bracketed_host ?pr) ''https://example.com''"
    by code_simp
  have re: "fst (check_url_reachability ?pr ''https://example.com'' 10)
              = Inl (Exn Validators_URLReachabilityError ''Page not found'')"
    by code_simp
  note nfT = get_or_create_archive_remap [where w = ?nf and url = "''https://example.com''"
      and timeout = 10 and e = "Exn ArchiveNotFoundError ''No archived version found''"]
  note unT = get_or_create_archive_remap [where w = ?un and url = "''https://example.com''"
      and timeout = 10 and e = ?e403]
  note okT = get_or_create_archive_remap [where w = ?ok and url = "''https://example.com''"
      and timeout = 10 and a = "''https://archive.is/abc123''"]
  note prT = get_or_create_archive_remap [where w = ?pr and url = "''https://example.com''"
      and timeout = 10 and blocker = None
      and e' = "Exn Validators_URLReachabilityError ''Page not found''"]
  have r1: "fst (get_or_create_archive ?nf ''https://example.com'' 10)
     = Inl (Exn ArchiveCreationError
              (''Archive creation is not yet implemented. '' @
               ''Please try again later when this feature becomes available.''))"
    using nfT [THEN conjunct1, THEN mp, OF conjI [OF nf nfi]] .
  have r2: "fst (get_or_create_archive ?un ''https://example.com'' 10) = Inl ?e403"
    using unT [THEN conjunct2, THEN conjunct1, THEN mp, OF conjI [OF un uni]] .
  have r3: "fst (get_or_create_archive ?ok ''https://example.com'' 10)
              = Inr ''https://archive.is/abc123''"
    using okT [THEN conjunct2, THEN conjunct2, THEN conjunct1, THEN mp, OF ok] .
  have r4: "fst (validate_url_with_reachability ?pr ''https://example.com'' 10 None)
     = Inl (Exn Validators_URLReachabilityError ''Page not found'')"
    using prT [THEN conjunct2, THEN conjunct2, THEN conjunct2, THEN conjunct2,
               THEN mp, OF conjI [OF wf conjI [OF vs conjI [OF disjI1 [OF refl] re]]]] .
  from nf nfi r1 un r2 r3 r4 show ?thesis
    by (intro conjI)
qed

text \<open>
  Claim C3 does not hold of the program. The remap of \<open>get_or_create_archive\<close> is as the
  claim has it, but it is not the only place where one kind of error becomes another. The
  validators raise the classes \<open>URLValidationError\<close> and \<open>URLReachabilityError\<close> that
  \<open>validators.py\<close> defines, and the browser handler raises its own \<open>BrowserError\<close>; the
  handlers of \<open>main\<close> and of \<open>archive_url\<close> name the unrelated classes of \<open>exceptions.py\<close>.
  So an invalid address, an unreachable address and a browser failure all fall through to
  the last handler: \<open>main\<close> returns 1, the code of an unclassified failure, where its
  handlers would give 2, 3 and 8, and \<open>archive_url\<close> reports an unexpected error.
\<close>

theorem error_kinds_downgraded:
  "fst (validate_url_with_reachability
          (const_world (Response 200 ''x'') (Response 200 ''y'') (Opened True))
          ''not_a_url'' 10 None)
     = Inl (Exn Validators_URLValidationError ''Invalid URL format'')
   \<and> \<not> isinstance (Exn Validators_URLValidationError ''Invalid URL format'') URLValidationError
   \<and> main_except (Exn URLValidationError ''Invalid URL format'') = Inr 2
   \<and> fst (main (const_world (Response 200 ''x'') (Response 200 ''y'') (Opened True))
          ''not_a_url'' False) = Inr 1
   \<and> fst (archive_url (const_world (Response 200 ''x'') (Response 200 ''y'') (Opened True))
          ''not_a_url'' False)
     = Inr (False, ''An unexpected error occurred: Invalid URL format'')
   \<and> fst (validate_url_with_reachability
          (const_world (Response 404 ''https://example.com'') (Response 200 ''y'') (Opened True))
          ''https://example.com'' 10 None)
     = Inl (Exn Validators_URLReachabilityError ''Page not found'')
   \<and> main_except (Exn URLReachabilityError ''Page not found'') = Inr 3
   \<and> fst (main
          (const_world (Response 404 ''https://example.com'') (Response 200 ''y'') (Opened True))
          ''https://example.com'' False) = Inr 1
   \<and> fst (archive_url
          (const_world (Response 404 ''https://example.com'') (Response 200 ''y'') (Opened True))
          ''https://example.com'' False)
     = Inr (False, ''An unexpected error occurred: Page not found'')
   \<and> fst (open_url_in_browser
          (const_world (Response 200 ''https://example.com'')
             (Response 200 ''https://archive.is/abc123'')
             (BrowserRaises (Exn Webbrowser_Error ''no browser'')))
          ''https://archive.is/abc123'')
     = Inl (Exn BrowserHandler_BrowserError ''Browser error: no browser'')
   \<and> main_except (Exn BrowserError ''Browser error: no browser'') = Inr 8
   \<and> fst (main
          (const_world (Response 200 ''https://example.com'')
             (Response 200 ''https://archive.is/abc123'')
             (BrowserRaises (Exn Webbrowser_Error ''no browser'')))
          ''https://example.com'' False) = Inr 1"
  by code_simp

section \<open>The validators\<close>

text \<open>
  Claim C4, as amended. The pipeline \<open>validate_url_with_reachability\<close> checks the format
  before the scheme: a string that is not well formed gives \<open>Invalid URL format\<close>, whatever
  its scheme, and a well-formed string with another scheme than http and https gives
  \<open>URL must start with http:// or https://\<close>; neither makes a request. The validator
  \<open>validate_url\<close> goes the other way: the empty string gives \<open>URL cannot be empty\<close>, then a
  string without an allowed scheme gives the scheme message, whatever its format, and only
  then a string that is not well formed gives \<open>URL is not well-formed\<close>.
\<close>

theorem validators_check_order:
  "(\<not> is_well_formed_url (check_bracketed_host w) url \<longrightarrow>
      validate_url_with_reachability w url timeout blocker =
        (Inl (Exn Validators_URLValidationError ''Invalid URL format''), []))
   \<and> (is_well_formed_url (check_bracketed_host w) url
        \<and> \<not> is_valid_scheme (check_bracketed_host w) url \<longrightarrow>
      validate_url_with_reachability w url timeout blocker =
        (Inl (Exn Validators_URLValidationError ''URL must start with http:// or https://''),
         []))
   \<and> (url = [] \<longrightarrow>
      validate_url chk url = Inl (Exn Validators_URLValidationError ''URL cannot be empty''))
   \<and> (url \<noteq> [] \<and> \<not> is_valid_scheme chk url \<longrightarrow>
      validate_url chk url =
        Inl (Exn Validators_URLValidationError ''URL must start with http:// or https://''))
   \<and> (url \<noteq> [] \<and> is_valid_scheme chk url \<and> \<not> is_well_formed_url chk url \<longrightarrow>
      validate_url chk url = Inl (Exn Validators_URLValidationError ''URL is not well-formed''))
   \<and> (url \<noteq> [] \<and> is_valid_scheme chk url \<and> is_well_formed_url chk url \<longrightarrow>
      validate_url chk url = Inr url)"
  by (simp add: validate_url_with_reachability_def validate_url_def)

theorem validators_check_order_witness:
  "\<not> is_well_formed_url no_bracket_error ''not_a_url''
   \<and> validate_url_with_reachability
        (const_world (Response 200 ''x'') (Response 200 ''y'') (Opened True)) ''not_a_url'' 10 None
      = (Inl (Exn Validators_URLValidationError ''Invalid URL format''), [])
   \<and> is_well_formed_url no_bracket_error ''ftp://x.com''
   \<and> \<not> is_valid_scheme no_bracket_error ''ftp://x.com''
   \<and> validate_url_with_reachability
        (const_world (Response 200 ''x'') (Response 200 ''y'') (Opened True)) ''ftp://x.com'' 10 None
      = (Inl (Exn Validators_URLValidationError ''URL must start with http:// or https://''), [])
   \<and> validate_url no_bracket_error ''ftp://x.com''
      = Inl (Exn Validators_URLValidationError ''URL must start with http:// or https://'')
   \<and> is_valid_scheme no_bracket_error ''http:x''
   \<and> \<not> is_well_formed_url no_bracket_error ''http:x''
   \<and> validate_url no_bracket_error ''http:x''
      = Inl (Exn Validators_URLValidationError ''URL is not well-formed'')
   \<and> validate_url no_bracket_error ''https://example.com'' = Inr ''https://example.com''
   \<and> validate_url no_bracket_error [] = Inl (Exn Validators_URLValidationError ''URL cannot be empty'')"
proof -
  let ?w = "const_world (Response 200 ''x'') (Response 200 ''y'') (Opened True)"
  have chk: "check_bracketed_host ?w = no_bracket_error"
    by (simp add: const_world_sel)
  have a: "\<not> is_well_formed_url no_bracket_error ''not_a_url''" by code_simp
  have b1: "is_well_formed_url no_bracket_error ''ftp://x.com''" by code_simp
  have b2: "\<not> is_valid_scheme no_bracket_error ''ftp://x.com''" by code_simp
  have b3: "''ftp://x.com'' \<noteq> []" by simp
  have c1: "is_valid_scheme no_bracket_error ''http:x''" by code_simp
  have c2: "\<not> is_well_formed_url no_bracket_error ''http:x''" by code_simp
  have c3: "''http:x'' \<noteq> []" by simp
  have d1: "is_valid_scheme no_bracket_error ''https://example.com''" by code_simp
  have d2: "is_well_formed_url no_bracket_error ''https://example.com''" by code_simp
  have d3: "''https://example.com'' \<noteq> []" by simp
  note T = validators_check_order [where w = ?w and timeout = 10 and blocker = None
      and chk = no_bracket_error, unfolded chk]
  have r1: "validate_url_with_reachability ?w ''not_a_url'' 10 None
      = (Inl (Exn Validators_URLValidationError ''Invalid URL format''), [])"
    using T [where url = "''not_a_url''", THEN conjunct1, THEN mp, OF a] .
  have r2: "validate_url_with_reachability ?w ''ftp://x.com'' 10 None
      = (Inl (Exn Validators_URLValidationError ''URL must start with http:// or https://''), [])"
    using T [where url = "''ftp://x.com''", THEN conjunct2, THEN conjunct1, THEN mp,
             OF conjI [OF b1 b2]] .
  have r3: "validate_url no_bracket_error []
      = Inl (Exn Validators_URLValidationError ''URL cannot be empty'')"
    using T [where url = "[]", THEN conjunct2, THEN conjunct2, THEN conjunct1, THEN mp,
             OF refl] .
  have r4: "validate_url no_bracket_error ''ftp://x.com''
      = Inl (Exn Validators_URLValidationError ''URL must start with http:// or https://'')"
    using T [where url = "''ftp://x.com''", THEN conjunct2, THEN conjunct2, THEN conjunct2,
             THEN conjunct1, THEN mp, OF conjI [OF b3 b2]] .
  have r5: "validate_url no_bracket_error ''http:x''
      = Inl (Exn Validators_URLValidationError ''URL is not well-formed'')"
    using T [where url = "''http:x''", THEN conjunct2, THEN conjunct2, THEN conjunct2,
             THEN conjunct2, THEN conjunct1, THEN mp, OF conjI [OF c3 conjI [OF c1 c2]]] .
  have r6: "validate_url no_bracket_error ''https://example.com'' = Inr ''https://example.com''"
    using T [where url = "''https://example.com''", THEN conjunct2, THEN conjunct2,
             THEN conjunct2, THEN conjunct2, THEN conjunct2, THEN mp,
             OF conjI [OF d3 conjI [OF d1 d2]]] .
  from a r1 b1 b2 r2 r4 c1 c2 r5 r6 r3 show ?thesis
    by (intro conjI)
qed

text \<open>
  Claim C4 as the specification states it fails for \<open>validate_url\<close>: on a string that fails
  both checks, the scheme message wins.
\<close>

theorem validate_url_scheme_first_counterexample:
  "\<not> is_well_formed_url no_bracket_error ''not_a_url''
   \<and> \<not> is_valid_scheme no_bracket_error ''not_a_url''
   \<and> validate_url no_bracket_error ''not_a_url''
      = Inl (Exn Validators_URLValidationError ''URL must start with http:// or https://'')
   \<and> validate_url no_bracket_error ''not_a_url''
      \<noteq> Inl (Exn Validators_URLValidationError ''Invalid URL format'')"
  by code_simp

section \<open>The blocklist\<close>

text \<open>
  Claim C5, as amended. For every address with a host, that is, one that \<open>urlparse\<close>
  parses with a network location that is not empty, \<open>is_domain_blocked\<close> takes the host,
  lowercases it, then strips one leading \<open>www.\<close> from the lowercased text, and answers
  whether some entry of the blocklist occurs in the result as a contiguous run. With the default blocklist, \<open>https://www.facebook.com/x\<close> and
  \<open>http://facebook.com\<close> are blocked and \<open>https://example.com\<close> is not.
\<close>

theorem is_domain_blocked_substring:
  "(urlparse chk url = Inr parsed \<and> netloc parsed \<noteq> [] \<longrightarrow>
      is_domain_blocked chk self url =
        Inr (\<exists>blocked ps ss. blocked |\<in>| blocked_domains self \<and>
               (if prefix ''www.'' (lower (netloc parsed)) then drop 4 (lower (netloc parsed))
                else lower (netloc parsed)) = ps @ blocked @ ss))
   \<and> DomainBlocker None fs = Inr default_blocker
   \<and> is_domain_blocked chk default_blocker ''https://www.facebook.com/x'' = Inr True
   \<and> is_domain_blocked chk default_blocker ''http://facebook.com'' = Inr True
   \<and> is_domain_blocked chk default_blocker ''https://example.com'' = Inr False"
proof (intro conjI impI)
  assume "urlparse chk url = Inr parsed \<and> netloc parsed \<noteq> []"
  then show "is_domain_blocked chk self url =
        Inr (\<exists>blocked ps ss. blocked |\<in>| blocked_domains self \<and>
               (if prefix ''www.'' (lower (netloc parsed)) then drop 4 (lower (netloc parsed))
                else lower (netloc parsed)) = ps @ blocked @ ss)"
    by (auto simp add: is_domain_blocked_def Let_def startswith_def contains_iff)
next
  show "DomainBlocker None fs = Inr default_blocker"
    by (rule DomainBlocker_fresh)
next
  show "is_domain_blocked chk default_blocker ''https://www.facebook.com/x'' = Inr True"
    by code_simp
next
  show "is_domain_blocked chk default_blocker ''http://facebook.com'' = Inr True"
    by code_simp
next
  show "is_domain_blocked chk default_blocker ''https://example.com'' = Inr False"
    by code_simp
qed

theorem is_domain_blocked_substring_witness:
  "urlparse no_bracket_error ''https://EXAMPLE.COM'' = Inr (ParseResult ''https'' ''EXAMPLE.COM'')
   \<and> netloc (ParseResult ''https'' ''EXAMPLE.COM'') \<noteq> []
   \<and> is_domain_blocked no_bracket_error (add_blocked_domain default_blocker ''Example.com'')
        ''https://EXAMPLE.COM'' = Inr True
   \<and> (\<exists>blocked ps ss.
         blocked |\<in>| blocked_domains (add_blocked_domain default_blocker ''Example.com'')
         \<and> (if prefix ''www.'' (lower (netloc (ParseResult ''https'' ''EXAMPLE.COM'')))
             then drop 4 (lower (netloc (ParseResult ''https'' ''EXAMPLE.COM'')))
             else lower (netloc (ParseResult ''https'' ''EXAMPLE.COM''))) = ps @ blocked @ ss)"
proof -
  have p: "urlparse no_bracket_error ''https://EXAMPLE.COM''
             = Inr (ParseResult ''https'' ''EXAMPLE.COM'')"
    by code_simp
  have n: "netloc (ParseResult ''https'' ''EXAMPLE.COM'') \<noteq> []"
    by simp
  have v: "is_domain_blocked no_bracket_error (add_blocked_domain default_blocker ''Example.com'')
             ''https://EXAMPLE.COM'' = Inr True"
    by code_simp
  note T = is_domain_blocked_substring [where chk = no_bracket_error
      and url = "''https://EXAMPLE.COM''" and parsed = "ParseResult ''https'' ''EXAMPLE.COM''"
      and self = "add_blocked_domain default_blocker ''Example.com''",
      THEN conjunct1, THEN mp, OF conjI [OF p n]]
  from T v have e: "\<exists>blocked ps ss.
         blocked |\<in>| blocked_domains (add_blocked_domain default_blocker ''Example.com'')
         \<and> (if prefix ''www.'' (lower (netloc (ParseResult ''https'' ''EXAMPLE.COM'')))
             then drop 4 (lower (netloc (ParseResult ''https'' ''EXAMPLE.COM'')))
             else lower (netloc (ParseResult ''https'' ''EXAMPLE.COM''))) = ps @ blocked @ ss"
    by (simp only: sum.inject simp_thms)
  from p n v e show ?thesis by (intro conjI)
qed

text \<open>
  Claim C5 as the specification states it, stripping the literal \<open>www.\<close> before
  lowercasing, fails: on a host written \<open>WWW.\<close> the program strips the prefix, the
  specification's order keeps it, and an entry that reaches into the prefix tells them
  apart.
\<close>

theorem is_domain_blocked_order_counterexample:
  "is_domain_blocked no_bracket_error (add_blocked_domain default_blocker ''www.example.com'')
     ''https://WWW.example.com'' = Inr False
   \<and> isBlocked_spec no_bracket_error (add_blocked_domain default_blocker ''www.example.com'')
     ''https://WWW.example.com'' = Inr True"
  by code_simp

text \<open>
  Claim C6 does not hold of the program. An address without a network location parses,
  with the empty network location; \<open>is_domain_blocked\<close> then looks for the entries in the
  empty text and answers \<open>False\<close>, where the claim, and the test
  \<open>test_invalid_url_format\<close> of the repository, expect \<open>DomainBlockerError\<close>.
\<close>

theorem is_domain_blocked_empty_netloc:
  "urlparse no_bracket_error ''not-a-valid-url'' = Inr (ParseResult [] [])
   \<and> is_domain_blocked no_bracket_error default_blocker ''not-a-valid-url'' = Inr False"
  by code_simp

section \<open>The reachability check\<close>

text \<open>
  Claim C7. On a response to the probe, \<open>check_url_reachability\<close> decides by the status
  alone, and the five cases cover every status and exclude one another: 200 gives the
  final location of the response and \<open>True\<close>; 403 gives \<open>Access forbidden\<close>; 404 gives
  \<open>Page not found\<close>; every status from 500 on gives \<open>Server error occurred\<close>; every other
  status gives \<open>Unexpected status code:\<close> followed by the status in decimal, a text that
  two statuses never share. One request is made.
\<close>

theorem check_url_reachability_status:
  assumes "requests_head w url timeout = Response sc final_url"
  shows "(sc = 200 \<longrightarrow> fst (check_url_reachability w url timeout) = Inr (final_url, True))
    \<and> (sc = 403 \<longrightarrow> fst (check_url_reachability w url timeout)
          = Inl (Exn Validators_URLReachabilityError ''Access forbidden''))
    \<and> (sc = 404 \<longrightarrow> fst (check_url_reachability w url timeout)
          = Inl (Exn Validators_URLReachabilityError ''Page not found''))
    \<and> (sc \<ge> 500 \<longrightarrow> fst (check_url_reachability w url timeout)
          = Inl (Exn Validators_URLReachabilityError ''Server error occurred''))
    \<and> (sc \<noteq> 200 \<and> sc \<noteq> 403 \<and> sc \<noteq> 404 \<and> sc < 500 \<longrightarrow>
          fst (check_url_reachability w url timeout)
          = Inl (Exn Validators_URLReachabilityError
                   (''Unexpected status code: '' @ str_int sc)))
    \<and> snd (check_url_reachability w url timeout) = [HEAD url]
    \<and> ((''Unexpected status code: '' @ str_int sc = ''Unexpected status code: '' @ str_int sc')
          = (sc = sc'))"
  using assms by (auto simp add: check_url_reachability_def dest: str_int_inj)

theorem check_url_reachability_status_witness:
  "fst (check_url_reachability
          (const_world (Response 200 ''https://example.com/final'') (Response 200 ''y'')
             (Opened True)) ''https://example.com'' 10)
     = Inr (''https://example.com/final'', True)
   \<and> fst (check_url_reachability
          (const_world (Response 403 ''https://example.com'') (Response 200 ''y'') (Opened True))
          ''https://example.com'' 10)
     = Inl (Exn Validators_URLReachabilityError ''Access forbidden'')
   \<and> fst (check_url_reachability
          (const_world (Response 404 ''https://example.com'') (Response 200 ''y'') (Opened True))
          ''https://example.com'' 10)
     = Inl (Exn Validators_URLReachabilityError ''Page not found'')
   \<and> fst (check_url_reachability
          (const_world (Response 503 ''https://example.com'') (Response 200 ''y'') (Opened True))
          ''https://example.com'' 10)
     = Inl (Exn Validators_URLReachabilityError ''Server error occurred'')
   \<and> fst (check_url_reachability
          (const_world (Response 418 ''https://example.com'') (Response 200 ''y'') (Opened True))
          ''https://example.com'' 10)
     = Inl (Exn Validators_URLReachabilityError (''Unexpected status code: '' @ str_int 418))
   \<and> str_int 418 = ''418''"
proof -
  have h: "\<And>sc loc. requests_head (const_world (Response sc loc) (Response 200 ''y'') (Opened True))
             ''https://example.com'' 10 = Response sc loc"
    by (simp add: const_world_sel)
  have r200: "fst (check_url_reachability
          (const_world (Response 200 ''https://example.com/final'') (Response 200 ''y'')
             (Opened True)) ''https://example.com'' 10)
     = Inr (''https://example.com/final'', True)"
    using check_url_reachability_status [OF h, THEN conjunct1, THEN mp, OF refl] .
  have r403: "fst (check_url_reachability
          (const_world (Response 403 ''https://example.com'') (Response 200 ''y'') (Opened True))
          ''https://example.com'' 10)
     = Inl (Exn Validators_URLReachabilityError ''Access forbidden'')"
    using check_url_reachability_status [OF h, THEN conjunct2, THEN conjunct1, THEN mp, OF refl] .
  have r404: "fst (check_url_reachability
          (const_world (Response 404 ''https://example.com'') (Response 200 ''y'') (Opened True))
          ''https://example.com'' 10)
     = Inl (Exn Validators_URLReachabilityError ''Page not found'')"
    using check_url_reachability_status
      [OF h, THEN conjunct2, THEN conjunct2, THEN conjunct1, THEN mp, OF refl] .
  have ge: "(500::int) \<le> 503" by simp
  have r503: "fst (check_url_reachability
          (const_world (Response 503 ''https://example.com'') (Response 200 ''y'') (Opened True))
          ''https://example.com'' 10)
     = Inl (Exn Validators_URLReachabilityError ''Server error occurred'')"
    using check_url_reachability_status
      [OF h, THEN conjunct2, THEN conjunct2, THEN conjunct2, THEN conjunct1, THEN mp, OF ge] .
  have other: "(418::int) \<noteq> 200 \<and> (418::int) \<noteq> 403 \<and> (418::int) \<noteq> 404 \<and> (418::int) < 500"
    by simp
  have r418: "fst (check_url_reachability
          (const_world (Response 418 ''https://example.com'') (Response 200 ''y'') (Opened True))
          ''https://example.com'' 10)
     = Inl (Exn Validators_URLReachabilityError (''Unexpected status code: '' @ str_int 418))"
    using check_url_reachability_status
      [OF h, THEN conjunct2, THEN conjunct2, THEN conjunct2, THEN conjunct2, THEN conjunct1,
       THEN mp, OF other] .
  have s: "str_int 418 = ''418''" by code_simp
  from r200 r403 r404 r503 r418 s show ?thesis by (intro conjI)
qed

section \<open>Changing and storing the blocklist\<close>

text \<open>
  Claim C9. When the lowercased domain is not in the set, \<open>remove_blocked_domain\<close> raises
  \<open>DomainBlockerError\<close> and leaves the blocklist as it was.
\<close>

theorem remove_blocked_domain_absent:
  assumes "lower domain |\<notin>| blocked_domains self"
  shows "fst (remove_blocked_domain self domain)
           = Inl (Exn DomainBlockerError (''Domain '' @ domain @ '' is not in the blocked list''))
       \<and> snd (remove_blocked_domain self domain) = self
       \<and> get_blocked_domains (snd (remove_blocked_domain self domain))
           = get_blocked_domains self"
  using assms by (simp add: remove_blocked_domain_def)

theorem remove_blocked_domain_absent_witness:
  "lower ''Nonexistent.com'' |\<notin>| blocked_domains default_blocker
   \<and> fst (remove_blocked_domain default_blocker ''Nonexistent.com'')
       = Inl (Exn DomainBlockerError
                (''Domain '' @ ''Nonexistent.com'' @ '' is not in the blocked list''))
   \<and> snd (remove_blocked_domain default_blocker ''Nonexistent.com'') = default_blocker"
proof -
  have a: "lower ''Nonexistent.com'' |\<notin>| blocked_domains default_blocker"
    by code_simp
  note T = remove_blocked_domain_absent [OF a]
  from a T [THEN conjunct1] T [THEN conjunct2, THEN conjunct1] show ?thesis
    by (intro conjI)
qed

text \<open>
  Claim C8. When the file can be written, \<open>save_config\<close> stores exactly the set of the
  blocklist, and \<open>load_config\<close> into a fresh blocklist then gives, as state and as
  snapshot, that set together with the default entries, whether the fresh blocklist is
  built first and loaded then, or built from the path. The snapshot is the set of the
  blocklist. Whenever \<open>load_config\<close> succeeds, the new set is the old one together with the
  entries of the file; when it fails, the set is the old one.
\<close>

theorem save_load_round_trip:
  "(write_error fs path = None \<longrightarrow>
      (\<exists>fs' saved fresh loaded.
          save_config self path fs = (Inr (), fs')
        \<and> contents fs' path = Document (Some saved)
        \<and> fset_of_list saved = blocked_domains self
        \<and> DomainBlocker None fs' = Inr fresh
        \<and> blocked_domains fresh = DEFAULT_BLOCKED_DOMAINS
        \<and> load_config fresh path fs' = (Inr (), loaded)
        \<and> blocked_domains loaded = blocked_domains self |\<union>| DEFAULT_BLOCKED_DOMAINS
        \<and> get_blocked_domains loaded = blocked_domains self |\<union>| DEFAULT_BLOCKED_DOMAINS
        \<and> get_blocked_domains loaded = get_blocked_domains self |\<union>| DEFAULT_BLOCKED_DOMAINS
        \<and> (path \<noteq> [] \<longrightarrow> DomainBlocker (Some path) fs' = Inr loaded)))
   \<and> get_blocked_domains self = blocked_domains self
   \<and> (contents fs path = Document d \<longrightarrow>
        load_config self path fs =
          (Inr (), self\<lparr>blocked_domains :=
                     blocked_domains self |\<union>| fset_of_list (case d of None \<Rightarrow> [] | Some xs \<Rightarrow> xs)\<rparr>)
        \<and> blocked_domains self |\<subseteq>| blocked_domains (snd (load_config self path fs)))
   \<and> (fst (load_config self path fs) \<noteq> Inr () \<longrightarrow> snd (load_config self path fs) = self)"
proof (intro conjI impI)
  assume w: "write_error fs path = None"
  let ?saved = "sorted_list_of_fset (blocked_domains self)"
  let ?fs' = "fs\<lparr>contents := (contents fs) (path := Document (Some ?saved))\<rparr>"
  let ?loaded = "default_blocker\<lparr>blocked_domains :=
                   DEFAULT_BLOCKED_DOMAINS |\<union>| blocked_domains self\<rparr>"
  have s: "save_config self path fs = (Inr (), ?fs')"
    using w by (simp add: save_config_def)
  have f: "contents ?fs' path = Document (Some ?saved)"
    by simp
  have e: "fset_of_list ?saved = blocked_domains self"
    by simp
  have d: "blocked_domains default_blocker = DEFAULT_BLOCKED_DOMAINS"
    by (simp add: default_blocker_def)
  have l: "load_config default_blocker path ?fs' = (Inr (), ?loaded)"
    by (simp add: load_config_def default_blocker_def)
  have b: "blocked_domains ?loaded = blocked_domains self |\<union>| DEFAULT_BLOCKED_DOMAINS"
    by (simp add: funion_commute)
  have g: "get_blocked_domains ?loaded = blocked_domains self |\<union>| DEFAULT_BLOCKED_DOMAINS"
    by (simp add: get_blocked_domains_def funion_commute)
  have g': "get_blocked_domains ?loaded = get_blocked_domains self |\<union>| DEFAULT_BLOCKED_DOMAINS"
    by (simp add: get_blocked_domains_def funion_commute)
  have c: "path \<noteq> [] \<longrightarrow> DomainBlocker (Some path) ?fs' = Inr ?loaded"
    using l by (simp add: DomainBlocker_def default_blocker_def)
  from s f e DomainBlocker_fresh [of ?fs'] d l b g g' c
  show "\<exists>fs' saved fresh loaded.
          save_config self path fs = (Inr (), fs')
        \<and> contents fs' path = Document (Some saved)
        \<and> fset_of_list saved = blocked_domains self
        \<and> DomainBlocker None fs' = Inr fresh
        \<and> blocked_domains fresh = DEFAULT_BLOCKED_DOMAINS
        \<and> load_config fresh path fs' = (Inr (), loaded)
        \<and> blocked_domains loaded = blocked_domains self |\<union>| DEFAULT_BLOCKED_DOMAINS
        \<and> get_blocked_domains loaded = blocked_domains self |\<union>| DEFAULT_BLOCKED_DOMAINS
        \<and> get_blocked_domains loaded = get_blocked_domains self |\<union>| DEFAULT_BLOCKED_DOMAINS
        \<and> (path \<noteq> [] \<longrightarrow> DomainBlocker (Some path) fs' = Inr loaded)"
    by (intro exI conjI)
next
  show "get_blocked_domains self = blocked_domains self"
    by (simp add: get_blocked_domains_def)
next
  assume "contents fs path = Document d"
  then show "load_config self path fs =
          (Inr (), self\<lparr>blocked_domains :=
                     blocked_domains self |\<union>| fset_of_list (case d of None \<Rightarrow> [] | Some xs \<Rightarrow> xs)\<rparr>)"
    by (simp add: load_config_def)
next
  assume "contents fs path = Document d"
  then show "blocked_domains self |\<subseteq>| blocked_domains (snd (load_config self path fs))"
    by (simp add: load_config_def)
next
  assume "fst (load_config self path fs) \<noteq> Inr ()"
  then show "snd (load_config self path fs) = self"
    by (cases "contents fs path") (simp_all add: load_config_def)
qed

theorem save_load_round_trip_witness:
  "write_error empty_filesystem ''config.json'' = None
   \<and> ''example.org'' |\<in>| blocked_domains (add_blocked_domain default_blocker ''Example.org'')
   \<and> ''example.org'' |\<notin>| DEFAULT_BLOCKED_DOMAINS
   \<and> (\<exists>fs' saved fresh loaded.
          save_config (add_blocked_domain default_blocker ''Example.org'') ''config.json''
            empty_filesystem = (Inr (), fs')
        \<and> contents fs' ''config.json'' = Document (Some saved)
        \<and> ''example.org'' \<in> set saved
        \<and> DomainBlocker None fs' = Inr fresh
        \<and> load_config fresh ''config.json'' fs' = (Inr (), loaded)
        \<and> blocked_domains loaded
            = blocked_domains (add_blocked_domain default_blocker ''Example.org'')
              |\<union>| DEFAULT_BLOCKED_DOMAINS
        \<and> get_blocked_domains loaded
            = blocked_domains (add_blocked_domain default_blocker ''Example.org'')
              |\<union>| DEFAULT_BLOCKED_DOMAINS
        \<and> ''example.org'' |\<in>| get_blocked_domains loaded
        \<and> ''facebook.com'' |\<in>| get_blocked_domains loaded
        \<and> DomainBlocker (Some ''config.json'') fs' = Inr loaded)
   \<and> load_config default_blocker ''config.json''
        (empty_filesystem\<lparr>contents := (contents empty_filesystem)
           (''config.json'' := Document (Some [''test.com'', ''example.org'']))\<rparr>)
      = (Inr (), default_blocker\<lparr>blocked_domains :=
           blocked_domains default_blocker |\<union>| fset_of_list [''test.com'', ''example.org'']\<rparr>)
   \<and> snd (load_config default_blocker ''missing.json'' empty_filesystem) = default_blocker"
proof -
  let ?self = "add_blocked_domain default_blocker ''Example.org''"
  let ?fs2 = "empty_filesystem\<lparr>contents := (contents empty_filesystem)
           (''config.json'' := Document (Some [''test.com'', ''example.org'']))\<rparr>"
  have w: "write_error empty_filesystem ''config.json'' = None"
    by (simp add: empty_filesystem_def)
  have ne: "''config.json'' \<noteq> []"
    by simp
  have m1: "''example.org'' |\<in>| blocked_domains ?self"
    by code_simp
  have m2: "''example.org'' |\<notin>| DEFAULT_BLOCKED_DOMAINS"
    by code_simp
  have m3: "''facebook.com'' |\<in>| DEFAULT_BLOCKED_DOMAINS"
    by code_simp
  from save_load_round_trip [where fs = empty_filesystem and path = "''config.json''"
      and self = ?self, THEN conjunct1, THEN mp, OF w]
  obtain fs' saved fresh loaded where
    s: "save_config ?self ''config.json'' empty_filesystem = (Inr (), fs')" and
    k: "contents fs' ''config.json'' = Document (Some saved)" and
    e: "fset_of_list saved = blocked_domains ?self" and
    f: "DomainBlocker None fs' = Inr fresh" and
    l: "load_config fresh ''config.json'' fs' = (Inr (), loaded)" and
    b: "blocked_domains loaded = blocked_domains ?self |\<union>| DEFAULT_BLOCKED_DOMAINS" and
    g: "get_blocked_domains loaded = blocked_domains ?self |\<union>| DEFAULT_BLOCKED_DOMAINS" and
    c: "''config.json'' \<noteq> [] \<longrightarrow> DomainBlocker (Some ''config.json'') fs' = Inr loaded"
    by blast
  from c ne have c': "DomainBlocker (Some ''config.json'') fs' = Inr loaded"
    by (rule mp)
  from m1 e have i1: "''example.org'' \<in> set saved"
    by (metis fset_of_list_elem)
  from m1 g have i2: "''example.org'' |\<in>| get_blocked_domains loaded"
    by simp
  from m3 g have i3: "''facebook.com'' |\<in>| get_blocked_domains loaded"
    by simp
  from s k i1 f l b g i2 i3 c' have r1: "\<exists>fs' saved fresh loaded.
          save_config ?self ''config.json'' empty_filesystem = (Inr (), fs')
        \<and> contents fs' ''config.json'' = Document (Some saved)
        \<and> ''example.org'' \<in> set saved
        \<and> DomainBlocker None fs' = Inr fresh
        \<and> load_config fresh ''config.json'' fs' = (Inr (), loaded)
        \<and> blocked_domains loaded = blocked_domains ?self |\<union>| DEFAULT_BLOCKED_DOMAINS
        \<and> get_blocked_domains loaded = blocked_domains ?self |\<union>| DEFAULT_BLOCKED_DOMAINS
        \<and> ''example.org'' |\<in>| get_blocked_domains loaded
        \<and> ''facebook.com'' |\<in>| get_blocked_domains loaded
        \<and> DomainBlocker (Some ''config.json'') fs' = Inr loaded"
    by (intro exI conjI)
  have d: "contents ?fs2 ''config.json'' = Document (Some [''test.com'', ''example.org''])"
    by simp
  have r2: "load_config default_blocker ''config.json'' ?fs2
      = (Inr (), default_blocker\<lparr>blocked_domains :=
           blocked_domains default_blocker |\<union>| fset_of_list [''test.com'', ''example.org'']\<rparr>)"
    using save_load_round_trip [where fs = ?fs2 and path = "''config.json''"
      and self = default_blocker and d = "Some [''test.com'', ''example.org'']",
      THEN conjunct2, THEN conjunct2, THEN conjunct1, THEN mp, OF d, THEN conjunct1]
    by (simp only: option.case)
  have m: "fst (load_config default_blocker ''missing.json'' empty_filesystem) \<noteq> Inr ()"
    by (simp add: load_config_def empty_filesystem_def)
  have r3: "snd (load_config default_blocker ''missing.json'' empty_filesystem) = default_blocker"
    using save_load_round_trip [where fs = empty_filesystem and path = "''missing.json''"
      and self = default_blocker, THEN conjunct2, THEN conjunct2, THEN conjunct2, THEN mp, OF m] .
  from w m1 m2 r1 r2 r3 show ?thesis by (intro conjI)
qed

section \<open>The compositions\<close>

text \<open>
  Claim C10. Whatever the probe, the lookup and the browser answer or raise,
  \<open>archive_url\<close> returns a pair of a flag and a message and lets no exception out. The flag
  is \<open>True\<close> only when validation succeeded, the lookup found an archive and the browser
  opened it; on every other path it is \<open>False\<close>.
\<close>

theorem archive_url_total:
  "\<exists>ok msg. fst (archive_url w url quiet) = Inr (ok, msg)
     \<and> (ok \<longleftrightarrow> (\<exists>final archived m.
            fst (validate_url_with_reachability w url 10 None) = Inr final
          \<and> fst (get_latest_archive w url 10) = Inr archived
          \<and> fst (open_url_in_browser w archived) = Inr (True, m)))"
proof (cases "validate_url_with_reachability w url 10 None")
  case v: (Pair rv ev)
  show ?thesis
  proof (cases rv)
    case (Inl e)
    with v archive_url_except_returns [of e] show ?thesis
      by (auto simp add: archive_url_def archive_url_try_def)
  next
    case rvr: (Inr final)
    show ?thesis
    proof (cases "get_latest_archive w url 10")
      case g: (Pair rg eg)
      show ?thesis
      proof (cases rg)
        case (Inl e)
        with v rvr g archive_url_except_returns [of e] show ?thesis
          by (auto simp add: archive_url_def archive_url_try_def)
      next
        case rgr: (Inr archived)
        show ?thesis
        proof (cases "open_url_in_browser w archived")
          case b: (Pair rb eb)
          show ?thesis
          proof (cases rb)
            case (Inl e)
            with v rvr g rgr b archive_url_except_returns [of e] show ?thesis
              by (auto simp add: archive_url_def archive_url_try_def)
          next
            case (Inr p)
            obtain success m where p: "p = (success, m)" by (cases p)
            with v rvr g rgr b Inr
              archive_url_except_returns [of "Exn BrowserError (''Failed to open browser: '' @ m)"]
            show ?thesis
              by (cases success) (auto simp add: archive_url_def archive_url_try_def)
          qed
        qed
      qed
    qed
  qed
qed

theorem archive_url_total_witness:
  "(\<exists>ok msg. fst (archive_url
       (const_world (Raises (Exn OtherException ''boom'')) (Response 200 ''y'') (Opened True))
       ''https://example.com'' False) = Inr (ok, msg))
   \<and> fst (archive_url
       (const_world (Raises (Exn OtherException ''boom'')) (Response 200 ''y'') (Opened True))
       ''https://example.com'' False)
      = Inr (False, ''An unexpected error occurred: boom'')
   \<and> fst (archive_url
       (const_world (Response 200 ''https://example.com'') (Response 200 ''https://archive.is/abc123'')
          (BrowserRaises (Exn Webbrowser_Error ''no browser'')))
       ''https://example.com'' False)
      = Inr (False, ''An unexpected error occurred: Browser error: no browser'')
   \<and> fst (archive_url
       (const_world (Response 200 ''https://example.com'') (Response 200 ''https://archive.is/abc123'')
          (Opened True))
       ''https://example.com'' False)
      = Inr (True, ''Successfully opened archived version: https://archive.is/abc123'')"
proof -
  let ?w = "const_world (Raises (Exn OtherException ''boom'')) (Response 200 ''y'') (Opened True)"
  from archive_url_total [of ?w "''https://example.com''" False]
  have a: "\<exists>ok msg. fst (archive_url ?w ''https://example.com'' False) = Inr (ok, msg)"
    by blast
  have b: "fst (archive_url ?w ''https://example.com'' False)
      = Inr (False, ''An unexpected error occurred: boom'')"
    by code_simp
  have c: "fst (archive_url
       (const_world (Response 200 ''https://example.com'') (Response 200 ''https://archive.is/abc123'')
          (BrowserRaises (Exn Webbrowser_Error ''no browser'')))
       ''https://example.com'' False)
      = Inr (False, ''An unexpected error occurred: Browser error: no browser'')"
    by code_simp
  have d: "fst (archive_url
       (const_world (Response 200 ''https://example.com'') (Response 200 ''https://archive.is/abc123'')
          (Opened True))
       ''https://example.com'' False)
      = Inr (True, ''Successfully opened archived version: https://archive.is/abc123'')"
    by code_simp
  from a b c d show ?thesis by (intro conjI)
qed

text \<open>
  Claim C2 does not hold of the program. \<open>validate_url_with_reachability\<close> returns the
  final location of the probe, and \<open>main\<close> looks that location up; \<open>archive_url\<close> drops the
  result of the validation and looks up the address it was given. Here the probe of
  \<open>http://example.com\<close> ends at \<open>https://www.example.com/\<close>.
\<close>

theorem archive_url_looks_up_original_url:
  "fst (validate_url_with_reachability
          (const_world (Response 200 ''https://www.example.com/'')
             (Response 200 ''https://archive.is/abc123'') (Opened True))
          ''http://example.com'' 10 None)
     = Inr ''https://www.example.com/''
   \<and> snd (main
          (const_world (Response 200 ''https://www.example.com/'')
             (Response 200 ''https://archive.is/abc123'') (Opened True))
          ''http://example.com'' False)
     = [HEAD ''http://example.com'', GET (construct_search_url ''https://www.example.com/''),
        BROWSER ''https://archive.is/abc123'']
   \<and> snd (archive_url
          (const_world (Response 200 ''https://www.example.com/'')
             (Response 200 ''https://archive.is/abc123'') (Opened True))
          ''http://example.com'' False)
     = [HEAD ''http://example.com'', GET (construct_search_url ''http://example.com''),
        BROWSER ''https://archive.is/abc123'']
   \<and> construct_search_url ''http://example.com''
       = ''https://archive.is/submit/?url=http%3A%2F%2Fexample.com''
   \<and> construct_search_url ''https://www.example.com/''
       = ''https://archive.is/submit/?url=https%3A%2F%2Fwww.example.com%2F''"
  by code_simp

end
